theory Spec2Isabelle
  imports Main "HOL-Library.Sublist" "HOL-Library.Word"
begin

section \<open>Go strings\<close>

text \<open>
  A Go \<^verbatim>\<open>string\<close> is a sequence of bytes, and so is a HOL \<^typ>\<open>string\<close>:
  indexing, slicing and \<^verbatim>\<open>len\<close> count bytes. The functions of package
  \<^verbatim>\<open>strings\<close> that the program calls are written out on bytes below.
\<close>

text \<open>
  \<^verbatim>\<open>unicode.IsSpace\<close>: the UTF-8 encodings of the white space runes
  U+0009..U+000D, U+0020, U+0085, U+00A0, U+1680, U+2000..U+200A, U+2028, U+2029,
  U+202F, U+205F and U+3000. Each encoding starts with a byte that is no UTF-8
  continuation byte, so a white space rune stands at a byte offset exactly when one of
  these sequences is a prefix of the rest.
\<close>

definition spaceRunes :: "string list" where
  "spaceRunes =
     [[CHR 0x09], [CHR 0x0A], [CHR 0x0B], [CHR 0x0C], [CHR 0x0D], [CHR 0x20],
      [CHR 0xC2, CHR 0x85], [CHR 0xC2, CHR 0xA0],
      [CHR 0xE1, CHR 0x9A, CHR 0x80],
      [CHR 0xE2, CHR 0x80, CHR 0x80], [CHR 0xE2, CHR 0x80, CHR 0x81],
      [CHR 0xE2, CHR 0x80, CHR 0x82], [CHR 0xE2, CHR 0x80, CHR 0x83],
      [CHR 0xE2, CHR 0x80, CHR 0x84], [CHR 0xE2, CHR 0x80, CHR 0x85],
      [CHR 0xE2, CHR 0x80, CHR 0x86], [CHR 0xE2, CHR 0x80, CHR 0x87],
      [CHR 0xE2, CHR 0x80, CHR 0x88], [CHR 0xE2, CHR 0x80, CHR 0x89],
      [CHR 0xE2, CHR 0x80, CHR 0x8A],
      [CHR 0xE2, CHR 0x80, CHR 0xA8], [CHR 0xE2, CHR 0x80, CHR 0xA9],
      [CHR 0xE2, CHR 0x80, CHR 0xAF],
      [CHR 0xE2, CHR 0x81, CHR 0x9F],
      [CHR 0xE3, CHR 0x80, CHR 0x80]]"

definition leadingSpace :: "string \<Rightarrow> string option" where
  "leadingSpace s = find (\<lambda>p. prefix p s) spaceRunes"

definition trailingSpace :: "string \<Rightarrow> string option" where
  "trailingSpace s = find (\<lambda>p. suffix p s) spaceRunes"

lemma spaceRunes_nonempty: "p \<in> set spaceRunes \<Longrightarrow> p \<noteq> []"
  by (auto simp: spaceRunes_def)

lemma leadingSpace_Some: "leadingSpace s = Some p \<Longrightarrow> p \<noteq> [] \<and> prefix p s"
  unfolding leadingSpace_def by (auto simp: find_Some_iff spaceRunes_nonempty)

lemma trailingSpace_Some: "trailingSpace s = Some p \<Longrightarrow> p \<noteq> [] \<and> suffix p s"
  unfolding trailingSpace_def by (auto simp: find_Some_iff spaceRunes_nonempty)

lemma leadingSpace_Nil [simp]: "leadingSpace [] = None"
  by (simp add: leadingSpace_def spaceRunes_def)

lemma trailingSpace_Nil [simp]: "trailingSpace [] = None"
  by (simp add: trailingSpace_def spaceRunes_def)

text \<open>\<^verbatim>\<open>strings.TrimLeftFunc(s, unicode.IsSpace)\<close>\<close>

function TrimLeftSpace :: "string \<Rightarrow> string" where
  "TrimLeftSpace s =
     (case leadingSpace s of
        None \<Rightarrow> s
      | Some p \<Rightarrow> TrimLeftSpace (drop (length p) s))"
  by pat_completeness auto
termination
proof (relation "measure length")
  show "wf (measure length)" by simp
next
  fix s p assume "leadingSpace s = Some p"
  then have "p \<noteq> []" "prefix p s" using leadingSpace_Some by blast+
  then show "(drop (length p) s, s) \<in> measure length"
    by (cases s) (auto simp: prefix_def)
qed

text \<open>\<^verbatim>\<open>strings.TrimRightFunc(s, unicode.IsSpace)\<close>\<close>

function TrimRightSpace :: "string \<Rightarrow> string" where
  "TrimRightSpace s =
     (case trailingSpace s of
        None \<Rightarrow> s
      | Some p \<Rightarrow> TrimRightSpace (take (length s - length p) s))"
  by pat_completeness auto
termination
proof (relation "measure length")
  show "wf (measure length)" by simp
next
  fix s p assume "trailingSpace s = Some p"
  then have "p \<noteq> []" "suffix p s" using trailingSpace_Some by blast+
  then show "(take (length s - length p) s, s) \<in> measure length"
    by (cases s) (auto simp: suffix_def)
qed

declare TrimLeftSpace.simps [simp del] TrimRightSpace.simps [simp del]

text \<open>
  \<^verbatim>\<open>strings.TrimSpace\<close>: leading white space is removed first, then trailing
  white space of what is left.
\<close>

definition TrimSpace :: "string \<Rightarrow> string" where
  "TrimSpace s = TrimRightSpace (TrimLeftSpace s)"

text \<open>\<^verbatim>\<open>strings.TrimSuffix\<close>\<close>

definition TrimSuffix :: "string \<Rightarrow> string \<Rightarrow> string" where
  "TrimSuffix s suf = (if suffix suf s then take (length s - length suf) s else s)"

text \<open>\<^verbatim>\<open>strings.Contains\<close>\<close>

fun Contains :: "string \<Rightarrow> string \<Rightarrow> bool" where
  "Contains [] substr = (substr = [])"
| "Contains (c # cs) substr = (prefix substr (c # cs) \<or> Contains cs substr)"

text \<open>
  \<^verbatim>\<open>strings.Split(s, sep)\<close> for a separator that is not empty (the program
  splits at \<^verbatim>\<open>"\n"\<close> and at \<^verbatim>\<open>"->"\<close> only): the pieces between the
  occurrences of \<open>sep\<close>, found from left to right without overlap. \<open>cur\<close> is the
  piece being read.
\<close>

function SplitFrom :: "string \<Rightarrow> string \<Rightarrow> string \<Rightarrow> string list" where
  "SplitFrom sep cur [] = [cur]"
| "SplitFrom sep cur (c # cs) =
     (if sep \<noteq> [] \<and> prefix sep (c # cs)
      then cur # SplitFrom sep [] (drop (length sep) (c # cs))
      else SplitFrom sep (cur @ [c]) cs)"
  by pat_completeness auto
termination
  by (relation "measure (\<lambda>(sep, cur, s). length s)") (auto simp: neq_Nil_conv)

definition Split :: "string \<Rightarrow> string \<Rightarrow> string list" where
  "Split s sep = SplitFrom sep [] s"

text \<open>
  \<^verbatim>\<open>strings.Fields\<close>: the maximal pieces without white space, in order.
  \<open>takeField\<close> reads one piece up to the next white space rune.
\<close>

fun takeField :: "string \<Rightarrow> string" where
  "takeField [] = []"
| "takeField (c # cs) = (if leadingSpace (c # cs) \<noteq> None then [] else c # takeField cs)"

lemma TrimLeftSpace_no_space: "leadingSpace (TrimLeftSpace s) = None"
proof (induction s rule: TrimLeftSpace.induct)
  case (1 s)
  then show ?case
    by (cases "leadingSpace s") (simp_all add: TrimLeftSpace.simps [of s])
qed

lemma takeField_nonempty: "s \<noteq> [] \<Longrightarrow> leadingSpace s = None \<Longrightarrow> takeField s \<noteq> []"
  by (cases s) auto

function Fields :: "string \<Rightarrow> string list" where
  "Fields s =
     (let t = TrimLeftSpace s
      in if t = [] then [] else takeField t # Fields (drop (length (takeField t)) t))"
  by pat_completeness auto
termination
proof (relation "measure length")
  show "wf (measure length)" by simp
next
  fix s t assume t: "t = TrimLeftSpace s" and ne: "t \<noteq> []"
  have "length t \<le> length s"
    unfolding t
  proof (induction s rule: TrimLeftSpace.induct)
    case (1 s)
    then show ?case
      by (cases "leadingSpace s") (auto simp: TrimLeftSpace.simps [of s] intro: le_trans)
  qed
  moreover have "takeField t \<noteq> []"
    using ne TrimLeftSpace_no_space [of s] takeField_nonempty unfolding t by blast
  then have "0 < length (takeField t)" by simp
  moreover have "0 < length t" using ne by simp
  ultimately have "length t - length (takeField t) < length s"
    by arith
  then show "(drop (length (takeField t)) t, s) \<in> measure length"
    by simp
qed

declare Fields.simps [simp del]


section \<open>Data model (package models)\<close>

text \<open>\<^verbatim>\<open>type AIProvider string\<close> with its three constants.\<close>

type_synonym AIProvider = string

definition ProviderOpenAI :: AIProvider where "ProviderOpenAI = ''openai''"
definition ProviderClaude :: AIProvider where "ProviderClaude = ''claude''"
definition ProviderOllama :: AIProvider where "ProviderOllama = ''ollama''"

record AIConfig =
  Provider :: AIProvider
  APIKey :: string
  BaseURL :: string
  Model :: string

record FileChange =
  Path :: string
  Status :: string
  Additions :: int
  Deletions :: int

record GitStatus =
  Branch :: string
  Staged :: "FileChange list"
  Unstaged :: "FileChange list"
  Untracked :: "string list"
  IsRepo :: bool
  HasChanges :: bool

section \<open>Errors\<close>

text \<open>
  One constructor for each \<^verbatim>\<open>fmt.Errorf\<close> of the two services, with the values
  it formats. \<open>RuntimePanic\<close> is no returned error: it stands for a Go run-time panic
  (a failed type assertion, an index out of range), which unwinds the call.
\<close>

datatype error =
    NoRepositorySelected
  | GitCommandFailed "string list" string
  | GitStatusFailed error
  | DiffEmpty
  | APIKeyRequired AIProvider
  | UnsupportedProvider AIProvider
  | CreateRequestFailed
  | SendRequestFailed
  | ReadResponseFailed
  | APIError int string
  | ParseResponseFailed
  | NoChoices
  | NoContent
  | NoResponse
  | ProviderMustBeSpecified
  | RuntimePanic

section \<open>Status translator (package git)\<close>

record GitService =
  currentPath :: string

text \<open>
  The git executable is outside the program: \<open>exec dir args\<close> is what
  \<^verbatim>\<open>exec.Command("git", args...)\<close> run in directory \<open>dir\<close> gives to
  \<^verbatim>\<open>CombinedOutput\<close>, the output together with the exit error or without one.
\<close>

datatype cmd_result = CmdError string | CmdOk string

type_synonym git_exec = "string \<Rightarrow> string list \<Rightarrow> cmd_result"

definition runGitCommand :: "GitService \<Rightarrow> git_exec \<Rightarrow> string list \<Rightarrow> error + string" where
  "runGitCommand g exec args =
     (case exec (currentPath g) args of
        CmdError output \<Rightarrow> Inl (GitCommandFailed args output)
      | CmdOk output \<Rightarrow> Inr (TrimSuffix output [CHR 0x0A]))"

fun getStatusDescription :: "string \<Rightarrow> string" where
  "getStatusDescription code =
     (if code = ''M '' then ''Staged''
      else if code = '' M'' then ''Modified''
      else if code = ''MM'' then ''Modified (staged and unstaged)''
      else if code = ''A '' then ''Added''
      else if code = '' D'' then ''Deleted''
      else if code = ''D '' then ''Deleted (staged)''
      else if code = ''R '' then ''Renamed''
      else if code = ''C '' then ''Copied''
      else if code = ''??'' then ''Untracked''
      else if code = ''!!'' then ''Ignored''
      else ''Unknown'')"

text \<open>
  The body of the loop of \<^verbatim>\<open>GetStatus\<close> over the lines of the porcelain output:
  what one line adds to the status.
\<close>

definition statusLine :: "string \<Rightarrow> GitStatus \<Rightarrow> GitStatus" where
  "statusLine line status =
     (if line = [] then status
      else if length line \<ge> 3 then
        (let statusCode = take 2 line;
             filePath0 = drop 3 line;
             filePath = (if Contains filePath0 ''->''
                         then TrimSpace (last (Split filePath0 ''->''))
                         else filePath0);
             change = \<lparr>Path = filePath, Status = getStatusDescription statusCode,
                       Additions = 0, Deletions = 0\<rparr>;
             status1 = (if statusCode ! 0 \<in> {CHR ''M'', CHR ''A'', CHR ''R'', CHR ''C''}
                        then status\<lparr>Staged := Staged status @ [change]\<rparr>
                        else status);
             status2 = (if statusCode ! 0 = CHR ''?''
                        then status1\<lparr>Untracked := Untracked status1 @ [filePath]\<rparr>
                        else status1)
         in if statusCode ! 1 = CHR ''M'' \<or> (statusCode ! 0 = CHR ''?'' \<and> statusCode ! 1 = CHR ''?'')
            then (if statusCode ! 0 \<noteq> CHR ''?''
                  then status2\<lparr>Unstaged := Unstaged status2 @ [change]\<rparr>
                  else status2)
            else status2)
      else status)"

text \<open>
  \<^verbatim>\<open>GetStatus\<close>. The three git commands run in the order of the source;
  \<^verbatim>\<open>strings.Fields(branchStatus)[0]\<close> panics when the branch summary has no
  field, before the porcelain command is run.
\<close>

definition GetStatus :: "GitService \<Rightarrow> git_exec \<Rightarrow> error + GitStatus" where
  "GetStatus g exec =
     (if currentPath g = [] then Inl NoRepositorySelected
      else
        let status0 = \<lparr>Branch = [], Staged = [], Unstaged = [], Untracked = [],
                        IsRepo = True, HasChanges = False\<rparr>;
            status1 = (case runGitCommand g exec [''rev-parse'', ''--abbrev-ref'', ''HEAD''] of
                         Inr branch \<Rightarrow> status0\<lparr>Branch := TrimSpace branch\<rparr>
                       | Inl err \<Rightarrow> status0);
            branchStatus = (case runGitCommand g exec [''status'', ''-sb''] of
                              Inr out \<Rightarrow> out
                            | Inl err \<Rightarrow> [])
        in if branchStatus \<noteq> [] \<and> Fields branchStatus = [] then Inl RuntimePanic
           else
             let status2 = (if branchStatus \<noteq> []
                            then status1\<lparr>Branch := hd (Fields branchStatus)\<rparr>
                            else status1)
             in case runGitCommand g exec [''status'', ''--porcelain=v1''] of
                  Inl err \<Rightarrow> Inl (GitStatusFailed err)
                | Inr output \<Rightarrow>
                    if output = [] then Inr (status2\<lparr>HasChanges := False\<rparr>)
                    else Inr (fold statusLine (Split output [CHR 0x0A])
                                (status2\<lparr>HasChanges := True\<rparr>)))"

section \<open>AI provider gateway (package ai)\<close>

subsection \<open>Values of the JSON exchange\<close>

text \<open>
  The Go values that \<^verbatim>\<open>encoding/json\<close> reads and writes as
  \<^verbatim>\<open>interface{}\<close>: \<^verbatim>\<open>nil\<close>, \<^verbatim>\<open>bool\<close>, \<^verbatim>\<open>int\<close> (in request
  bodies only), \<^verbatim>\<open>float64\<close> (carried as its 64 bits, never computed with),
  \<^verbatim>\<open>string\<close>, slices, and maps with string keys. A map is an association list
  read with \<^const>\<open>map_of\<close>.
\<close>

datatype go_value =
    GoNil
  | GoBool bool
  | GoInt int
  | GoFloat64 "64 word"
  | GoString string
  | GoSlice "go_value list"
  | GoMap "(string \<times> go_value) list"

record http_request =
  reqMethod :: string
  reqURL :: string
  reqHeader :: "(string \<times> string) list"
  reqBody :: string

text \<open>
  What \<^verbatim>\<open>client.Do\<close> followed by \<^verbatim>\<open>io.ReadAll(resp.Body)\<close> gives: the
  exchange fails, or reading the body fails, or there are a status code and a body.
\<close>

datatype http_result = DoFailed | ReadAllFailed | Response int string

text \<open>
  The library functions that the gateway calls and that are no part of the program:
  \<^verbatim>\<open>json.Marshal\<close> (which cannot fail on the request bodies built here, maps of
  strings and numbers), \<^verbatim>\<open>json.Unmarshal\<close> into an \<^verbatim>\<open>interface{}\<close>
  (\<open>None\<close> for a syntax error), and whether \<^verbatim>\<open>http.NewRequest\<close> accepts a URL.
\<close>

record stdlib =
  json_Marshal :: "go_value \<Rightarrow> string"
  json_Unmarshal :: "string \<Rightarrow> go_value option"
  NewRequest_ok :: "string \<Rightarrow> bool"

text \<open>
  \<^verbatim>\<open>json.Unmarshal(body, &response)\<close> with \<^verbatim>\<open>response\<close> a nil
  \<^verbatim>\<open>map[string]interface{}\<close>: an object fills the map, \<^verbatim>\<open>null\<close> leaves it
  nil (reading a nil map finds no key), any other value is an error.
\<close>

definition unmarshalMap :: "stdlib \<Rightarrow> string \<Rightarrow> (string \<times> go_value) list option" where
  "unmarshalMap lib body =
     (case json_Unmarshal lib body of
        None \<Rightarrow> None
      | Some (GoMap m) \<Rightarrow> Some m
      | Some GoNil \<Rightarrow> Some []
      | Some other \<Rightarrow> None)"

subsection \<open>The service\<close>

record AIService =
  config :: AIConfig
  client :: "http_request \<Rightarrow> http_result"

definition SetConfig :: "AIService \<Rightarrow> AIConfig \<Rightarrow> AIService" where
  "SetConfig a cfg = a\<lparr>config := cfg\<rparr>"

definition GetConfig :: "AIService \<Rightarrow> AIConfig" where
  "GetConfig a = config a"

definition getModel :: "AIService \<Rightarrow> string" where
  "getModel a =
     (if Model (config a) \<noteq> [] then Model (config a)
      else if Provider (config a) = ProviderOpenAI then ''gpt-4''
      else if Provider (config a) = ProviderClaude then ''claude-3-sonnet-20240229''
      else if Provider (config a) = ProviderOllama then ''llama2''
      else ''gpt-4'')"

text \<open>
  The prompt literals of the source, as their UTF-8 bytes: the system instruction
  (the same raw string in \<^verbatim>\<open>generateWithOpenAI\<close> and
  \<^verbatim>\<open>generateWithClaude\<close>), the format of the user message up to its
  \<^verbatim>\<open>%s\<close>, and the Ollama prompt before and after its \<^verbatim>\<open>%s\<close>.
\<close>

definition systemPrompt :: string where
  "systemPrompt =
     [CHR 0xE4, CHR 0xBD, CHR 0xA0, CHR 0xE6, CHR 0x98, CHR 0xAF, CHR 0xE4, CHR 0xB8, CHR 0x80] @
     [CHR 0xE4, CHR 0xB8, CHR 0xAA, CHR 0xE4, CHR 0xB8, CHR 0x93, CHR 0xE4, CHR 0xB8, CHR 0x9A] @
     [CHR 0xE7, CHR 0x9A, CHR 0x84] @
     '' git '' @
     [CHR 0xE6, CHR 0x8F, CHR 0x90, CHR 0xE4, CHR 0xBA, CHR 0xA4, CHR 0xE4, CHR 0xBF, CHR 0xA1] @
     [CHR 0xE6, CHR 0x81, CHR 0xAF, CHR 0xE5, CHR 0x8A, CHR 0xA9, CHR 0xE6, CHR 0x89, CHR 0x8B] @
     [CHR 0xEF, CHR 0xBC, CHR 0x8C, CHR 0xE6, CHR 0x93, CHR 0x85, CHR 0xE9, CHR 0x95, CHR 0xBF] @
     [CHR 0xE7, CHR 0x94, CHR 0x9F, CHR 0xE6, CHR 0x88, CHR 0x90, CHR 0xE7, CHR 0xAE, CHR 0x80] @
     [CHR 0xE6, CHR 0xB4, CHR 0x81, CHR 0xE6, CHR 0xB8, CHR 0x85, CHR 0xE6, CHR 0x99, CHR 0xB0] @
     [CHR 0xE7, CHR 0x9A, CHR 0x84, CHR 0xE6, CHR 0x8F, CHR 0x90, CHR 0xE4, CHR 0xBA, CHR 0xA4] @
     [CHR 0xE4, CHR 0xBF, CHR 0xA1, CHR 0xE6, CHR 0x81, CHR 0xAF, CHR 0xEF, CHR 0xBC, CHR 0x8C] @
     [CHR 0xE9, CHR 0x81, CHR 0xB5, CHR 0xE5, CHR 0xBE, CHR 0xAA] @
     '' Conventional Commits '' @
     [CHR 0xE8, CHR 0xA7, CHR 0x84, CHR 0xE8, CHR 0x8C, CHR 0x83, CHR 0xE3, CHR 0x80, CHR 0x82] @
     [CHR 0x0A] @
     [CHR 0x0A] @
     [CHR 0xE5, CHR 0x88, CHR 0x86, CHR 0xE6, CHR 0x9E, CHR 0x90] @
     '' git diff '' @
     [CHR 0xE5, CHR 0xB9, CHR 0xB6, CHR 0xE7, CHR 0x94, CHR 0x9F, CHR 0xE6, CHR 0x88, CHR 0x90] @
     [CHR 0xE6, CHR 0x8F, CHR 0x90, CHR 0xE4, CHR 0xBA, CHR 0xA4, CHR 0xE4, CHR 0xBF, CHR 0xA1] @
     [CHR 0xE6, CHR 0x81, CHR 0xAF, CHR 0xEF, CHR 0xBC, CHR 0x8C, CHR 0xE8, CHR 0xA6, CHR 0x81] @
     [CHR 0xE6, CHR 0xB1, CHR 0x82, CHR 0xEF, CHR 0xBC, CHR 0x9A, CHR 0x0A] @
     ''1. '' @
     [CHR 0xE4, CHR 0xBD, CHR 0xBF, CHR 0xE7, CHR 0x94, CHR 0xA8, CHR 0xE4, CHR 0xB8, CHR 0xAD] @
     [CHR 0xE6, CHR 0x96, CHR 0x87, CHR 0xE7, CHR 0xBC, CHR 0x96, CHR 0xE5, CHR 0x86, CHR 0x99] @
     [CHR 0xE6, CHR 0x8F, CHR 0x90, CHR 0xE4, CHR 0xBA, CHR 0xA4, CHR 0xE4, CHR 0xBF, CHR 0xA1] @
     [CHR 0xE6, CHR 0x81, CHR 0xAF, CHR 0x0A] @
     ''2. '' @
     [CHR 0xE4, CHR 0xBB, CHR 0xA5, CHR 0xE7, CHR 0xB1, CHR 0xBB, CHR 0xE5, CHR 0x9E, CHR 0x8B] @
     [CHR 0xE5, CHR 0xBC, CHR 0x80, CHR 0xE5, CHR 0xA4, CHR 0xB4, CHR 0xEF, CHR 0xBC, CHR 0x88] @
     ''feat, fix, docs, style, refactor, test, chore '' @
     [CHR 0xE7, CHR 0xAD, CHR 0x89, CHR 0xEF, CHR 0xBC, CHR 0x89, CHR 0x0A] @
     ''3. '' @
     [CHR 0xE5, CHR 0x90, CHR 0x8E, CHR 0xE9, CHR 0x9D, CHR 0xA2, CHR 0xE8, CHR 0xB7, CHR 0x9F] @
     [CHR 0xE7, CHR 0xAE, CHR 0x80, CHR 0xE7, CHR 0x9F, CHR 0xAD, CHR 0xE7, CHR 0x9A, CHR 0x84] @
     [CHR 0xE6, CHR 0x8F, CHR 0x8F, CHR 0xE8, CHR 0xBF, CHR 0xB0, CHR 0xEF, CHR 0xBC, CHR 0x88] @
     [CHR 0xE4, CHR 0xB8, CHR 0x8D, CHR 0xE8, CHR 0xB6, CHR 0x85, CHR 0xE8, CHR 0xBF, CHR 0x87] @
     '' 50 '' @
     [CHR 0xE5, CHR 0xAD, CHR 0x97, CHR 0xEF, CHR 0xBC, CHR 0x89, CHR 0x0A] @
     ''4. '' @
     [CHR 0xE5, CHR 0xA6, CHR 0x82, CHR 0xE6, CHR 0x9C, CHR 0x89, CHR 0xE5, CHR 0xBF, CHR 0x85] @
     [CHR 0xE8, CHR 0xA6, CHR 0x81, CHR 0xEF, CHR 0xBC, CHR 0x8C, CHR 0xE6, CHR 0xB7, CHR 0xBB] @
     [CHR 0xE5, CHR 0x8A, CHR 0xA0, CHR 0xE6, CHR 0x9B, CHR 0xB4, CHR 0xE8, CHR 0xAF, CHR 0xA6] @
     [CHR 0xE7, CHR 0xBB, CHR 0x86, CHR 0xE7, CHR 0x9A, CHR 0x84, CHR 0xE6, CHR 0xAD, CHR 0xA3] @
     [CHR 0xE6, CHR 0x96, CHR 0x87, CHR 0xE8, CHR 0xAF, CHR 0xB4, CHR 0xE6, CHR 0x98, CHR 0x8E] @
     [CHR 0x0A] @
     ''5. '' @
     [CHR 0xE4, CHR 0xBD, CHR 0xBF, CHR 0xE7, CHR 0x94, CHR 0xA8, CHR 0xE7, CHR 0xA5, CHR 0x88] @
     [CHR 0xE4, CHR 0xBD, CHR 0xBF, CHR 0xE5, CHR 0x8F, CHR 0xA5, CHR 0xEF, CHR 0xBC, CHR 0x88] @
     [CHR 0xE7, CHR 0x94, CHR 0xA8, CHR 0x22, CHR 0xE6, CHR 0xB7, CHR 0xBB, CHR 0xE5, CHR 0x8A] @
     [CHR 0xA0, CHR 0x22, CHR 0xE8, CHR 0x80, CHR 0x8C, CHR 0xE9, CHR 0x9D, CHR 0x9E, CHR 0x22] @
     [CHR 0xE5, CHR 0xB7, CHR 0xB2, CHR 0xE6, CHR 0xB7, CHR 0xBB, CHR 0xE5, CHR 0x8A, CHR 0xA0] @
     [CHR 0x22, CHR 0xEF, CHR 0xBC, CHR 0x89, CHR 0x0A] @
     ''6. '' @
     [CHR 0xE6, CHR 0x98, CHR 0x8E, CHR 0xE7, CHR 0xA1, CHR 0xAE, CHR 0xE5, CHR 0x85, CHR 0xB7] @
     [CHR 0xE4, CHR 0xBD, CHR 0x93, CHR 0xE5, CHR 0x9C, CHR 0xB0, CHR 0xE8, CHR 0xAF, CHR 0xB4] @
     [CHR 0xE6, CHR 0x98, CHR 0x8E, CHR 0xE5, CHR 0x8F, CHR 0x98, CHR 0xE6, CHR 0x9B, CHR 0xB4] @
     [CHR 0xE5, CHR 0x86, CHR 0x85, CHR 0xE5, CHR 0xAE, CHR 0xB9, CHR 0x0A] @
     [CHR 0x0A] @
     [CHR 0xE5, CHR 0x8F, CHR 0xAA, CHR 0xE8, CHR 0xBF, CHR 0x94, CHR 0xE5, CHR 0x9B, CHR 0x9E] @
     [CHR 0xE6, CHR 0x8F, CHR 0x90, CHR 0xE4, CHR 0xBA, CHR 0xA4, CHR 0xE4, CHR 0xBF, CHR 0xA1] @
     [CHR 0xE6, CHR 0x81, CHR 0xAF, CHR 0xE6, CHR 0x9C, CHR 0xAC, CHR 0xE8, CHR 0xBA, CHR 0xAB] @
     [CHR 0xEF, CHR 0xBC, CHR 0x8C, CHR 0xE4, CHR 0xB8, CHR 0x8D, CHR 0xE8, CHR 0xA6, CHR 0x81] @
     [CHR 0xE6, CHR 0x9C, CHR 0x89, CHR 0xE5, CHR 0x85, CHR 0xB6, CHR 0xE4, CHR 0xBB, CHR 0x96] @
     [CHR 0xE8, CHR 0xA7, CHR 0xA3, CHR 0xE9, CHR 0x87, CHR 0x8A, CHR 0xE3, CHR 0x80, CHR 0x82]"

definition userPromptPrefix :: string where
  "userPromptPrefix =
     [CHR 0xE8, CHR 0xAF, CHR 0xB7, CHR 0xE4, CHR 0xB8, CHR 0xBA, CHR 0xE4, CHR 0xBB, CHR 0xA5] @
     [CHR 0xE4, CHR 0xB8, CHR 0x8B] @
     '' diff '' @
     [CHR 0xE7, CHR 0x94, CHR 0x9F, CHR 0xE6, CHR 0x88, CHR 0x90, CHR 0xE4, CHR 0xB8, CHR 0x80] @
     [CHR 0xE4, CHR 0xB8, CHR 0xAA, CHR 0xE4, CHR 0xB8, CHR 0xAD, CHR 0xE6, CHR 0x96, CHR 0x87] @
     [CHR 0xE7, CHR 0x9A, CHR 0x84] @
     '' git '' @
     [CHR 0xE6, CHR 0x8F, CHR 0x90, CHR 0xE4, CHR 0xBA, CHR 0xA4, CHR 0xE4, CHR 0xBF, CHR 0xA1] @
     [CHR 0xE6, CHR 0x81, CHR 0xAF, CHR 0xEF, CHR 0xBC, CHR 0x9A, CHR 0x0A] @
     [CHR 0x0A]"

definition ollamaPromptPrefix :: string where
  "ollamaPromptPrefix =
     [CHR 0xE4, CHR 0xBD, CHR 0xA0, CHR 0xE6, CHR 0x98, CHR 0xAF, CHR 0xE4, CHR 0xB8, CHR 0x80] @
     [CHR 0xE4, CHR 0xB8, CHR 0xAA, CHR 0xE4, CHR 0xB8, CHR 0x93, CHR 0xE4, CHR 0xB8, CHR 0x9A] @
     [CHR 0xE7, CHR 0x9A, CHR 0x84] @
     '' git '' @
     [CHR 0xE6, CHR 0x8F, CHR 0x90, CHR 0xE4, CHR 0xBA, CHR 0xA4, CHR 0xE4, CHR 0xBF, CHR 0xA1] @
     [CHR 0xE6, CHR 0x81, CHR 0xAF, CHR 0xE5, CHR 0x8A, CHR 0xA9, CHR 0xE6, CHR 0x89, CHR 0x8B] @
     [CHR 0xEF, CHR 0xBC, CHR 0x8C, CHR 0xE6, CHR 0x93, CHR 0x85, CHR 0xE9, CHR 0x95, CHR 0xBF] @
     [CHR 0xE7, CHR 0x94, CHR 0x9F, CHR 0xE6, CHR 0x88, CHR 0x90, CHR 0xE7, CHR 0xAE, CHR 0x80] @
     [CHR 0xE6, CHR 0xB4, CHR 0x81, CHR 0xE6, CHR 0xB8, CHR 0x85, CHR 0xE6, CHR 0x99, CHR 0xB0] @
     [CHR 0xE7, CHR 0x9A, CHR 0x84, CHR 0xE6, CHR 0x8F, CHR 0x90, CHR 0xE4, CHR 0xBA, CHR 0xA4] @
     [CHR 0xE4, CHR 0xBF, CHR 0xA1, CHR 0xE6, CHR 0x81, CHR 0xAF, CHR 0xEF, CHR 0xBC, CHR 0x8C] @
     [CHR 0xE9, CHR 0x81, CHR 0xB5, CHR 0xE5, CHR 0xBE, CHR 0xAA] @
     '' Conventional Commits '' @
     [CHR 0xE8, CHR 0xA7, CHR 0x84, CHR 0xE8, CHR 0x8C, CHR 0x83, CHR 0xE3, CHR 0x80, CHR 0x82] @
     [CHR 0x0A] @
     [CHR 0x0A] @
     [CHR 0xE5, CHR 0x88, CHR 0x86, CHR 0xE6, CHR 0x9E, CHR 0x90] @
     '' git diff '' @
     [CHR 0xE5, CHR 0xB9, CHR 0xB6, CHR 0xE7, CHR 0x94, CHR 0x9F, CHR 0xE6, CHR 0x88, CHR 0x90] @
     [CHR 0xE4, CHR 0xB8, CHR 0xAD, CHR 0xE6, CHR 0x96, CHR 0x87, CHR 0xE6, CHR 0x8F, CHR 0x90] @
     [CHR 0xE4, CHR 0xBA, CHR 0xA4, CHR 0xE4, CHR 0xBF, CHR 0xA1, CHR 0xE6, CHR 0x81, CHR 0xAF] @
     [CHR 0xE3, CHR 0x80, CHR 0x82, CHR 0xE8, CHR 0xA6, CHR 0x81, CHR 0xE6, CHR 0xB1, CHR 0x82] @
     [CHR 0xEF, CHR 0xBC, CHR 0x9A, CHR 0x0A] @
     ''1. '' @
     [CHR 0xE4, CHR 0xBB, CHR 0xA5, CHR 0xE7, CHR 0xB1, CHR 0xBB, CHR 0xE5, CHR 0x9E, CHR 0x8B] @
     [CHR 0xE5, CHR 0xBC, CHR 0x80, CHR 0xE5, CHR 0xA4, CHR 0xB4, CHR 0xEF, CHR 0xBC, CHR 0x88] @
     ''feat, fix, docs, style, refactor, test, chore '' @
     [CHR 0xE7, CHR 0xAD, CHR 0x89, CHR 0xEF, CHR 0xBC, CHR 0x89, CHR 0x0A] @
     ''2. '' @
     [CHR 0xE5, CHR 0x90, CHR 0x8E, CHR 0xE9, CHR 0x9D, CHR 0xA2, CHR 0xE8, CHR 0xB7, CHR 0x9F] @
     [CHR 0xE7, CHR 0xAE, CHR 0x80, CHR 0xE7, CHR 0x9F, CHR 0xAD, CHR 0xE7, CHR 0x9A, CHR 0x84] @
     [CHR 0xE6, CHR 0x8F, CHR 0x8F, CHR 0xE8, CHR 0xBF, CHR 0xB0, CHR 0xEF, CHR 0xBC, CHR 0x88] @
     [CHR 0xE4, CHR 0xB8, CHR 0x8D, CHR 0xE8, CHR 0xB6, CHR 0x85, CHR 0xE8, CHR 0xBF, CHR 0x87] @
     '' 50 '' @
     [CHR 0xE5, CHR 0xAD, CHR 0x97, CHR 0xEF, CHR 0xBC, CHR 0x89, CHR 0x0A] @
     ''3. '' @
     [CHR 0xE4, CHR 0xBD, CHR 0xBF, CHR 0xE7, CHR 0x94, CHR 0xA8, CHR 0xE7, CHR 0xA5, CHR 0x88] @
     [CHR 0xE4, CHR 0xBD, CHR 0xBF, CHR 0xE5, CHR 0x8F, CHR 0xA5, CHR 0xEF, CHR 0xBC, CHR 0x88] @
     [CHR 0xE7, CHR 0x94, CHR 0xA8, CHR 0x22, CHR 0xE6, CHR 0xB7, CHR 0xBB, CHR 0xE5, CHR 0x8A] @
     [CHR 0xA0, CHR 0x22, CHR 0xE8, CHR 0x80, CHR 0x8C, CHR 0xE9, CHR 0x9D, CHR 0x9E, CHR 0x22] @
     [CHR 0xE5, CHR 0xB7, CHR 0xB2, CHR 0xE6, CHR 0xB7, CHR 0xBB, CHR 0xE5, CHR 0x8A, CHR 0xA0] @
     [CHR 0x22, CHR 0xEF, CHR 0xBC, CHR 0x89, CHR 0x0A] @
     ''4. '' @
     [CHR 0xE5, CHR 0x8F, CHR 0xAA, CHR 0xE8, CHR 0xBF, CHR 0x94, CHR 0xE5, CHR 0x9B, CHR 0x9E] @
     [CHR 0xE6, CHR 0x8F, CHR 0x90, CHR 0xE4, CHR 0xBA, CHR 0xA4, CHR 0xE4, CHR 0xBF, CHR 0xA1] @
     [CHR 0xE6, CHR 0x81, CHR 0xAF, CHR 0xE6, CHR 0x9C, CHR 0xAC, CHR 0xE8, CHR 0xBA, CHR 0xAB] @
     [CHR 0xEF, CHR 0xBC, CHR 0x8C, CHR 0xE4, CHR 0xB8, CHR 0x8D, CHR 0xE8, CHR 0xA6, CHR 0x81] @
     [CHR 0xE6, CHR 0x9C, CHR 0x89, CHR 0xE5, CHR 0x85, CHR 0xB6, CHR 0xE4, CHR 0xBB, CHR 0x96] @
     [CHR 0xE8, CHR 0xA7, CHR 0xA3, CHR 0xE9, CHR 0x87, CHR 0x8A, CHR 0x0A] @
     [CHR 0x0A] @
     ''Diff:'' @
     [CHR 0x0A]"

definition ollamaPromptSuffix :: string where
  "ollamaPromptSuffix =
     [CHR 0x0A] @
     [CHR 0x0A] @
     [CHR 0xE6, CHR 0x8F, CHR 0x90, CHR 0xE4, CHR 0xBA, CHR 0xA4, CHR 0xE4, CHR 0xBF, CHR 0xA1] @
     [CHR 0xE6, CHR 0x81, CHR 0xAF, CHR 0xEF, CHR 0xBC, CHR 0x9A]"

text \<open>
  The text of a ChatCompletion response (lines 130 to 139 of the source). The two type
  assertions on \<^verbatim>\<open>choices[0]\<close> and \<^verbatim>\<open>choice["message"]\<close> have one result
  and panic when the value is no map; the one on \<^verbatim>\<open>message["content"]\<close> drops its
  second result and gives the empty string when the value is no string.
\<close>

definition openAIText :: "(string \<times> go_value) list \<Rightarrow> error + string" where
  "openAIText response =
     (case map_of response ''choices'' of
        Some (GoSlice choices) \<Rightarrow>
          (case choices of
             [] \<Rightarrow> Inl NoChoices
           | choice0 # rest \<Rightarrow>
               (case choice0 of
                  GoMap choice \<Rightarrow>
                    (case map_of choice ''message'' of
                       Some (GoMap message) \<Rightarrow>
                         (let content = (case map_of message ''content'' of
                                           Some (GoString s) \<Rightarrow> s
                                         | other \<Rightarrow> [])
                          in Inr (TrimSpace content))
                     | other \<Rightarrow> Inl RuntimePanic)
                | other \<Rightarrow> Inl RuntimePanic))
      | other \<Rightarrow> Inl NoChoices)"

definition generateWithOpenAI ::
    "stdlib \<Rightarrow> AIService \<Rightarrow> string \<Rightarrow> (error + string) \<times> http_request list" where
  "generateWithOpenAI lib a diff =
     (let baseURL = (if BaseURL (config a) = [] then ''https://api.openai.com/v1''
                     else BaseURL (config a));
          requestBody = GoMap
            [(''model'', GoString (getModel a)),
             (''messages'', GoSlice
                [GoMap [(''role'', GoString ''system''), (''content'', GoString systemPrompt)],
                 GoMap [(''role'', GoString ''user''),
                        (''content'', GoString (userPromptPrefix @ diff))]]),
             (''temperature'', GoFloat64 0x3FD3333333333333),
             (''max_tokens'', GoInt 200)];
          jsonData = json_Marshal lib requestBody
      in if \<not> NewRequest_ok lib (baseURL @ ''/chat/completions'')
         then (Inl CreateRequestFailed, [])
         else
           let req = \<lparr>reqMethod = ''POST'', reqURL = baseURL @ ''/chat/completions'',
                      reqHeader = [(''Content-Type'', ''application/json''),
                                   (''Authorization'', ''Bearer '' @ APIKey (config a))],
                      reqBody = jsonData\<rparr>
           in case client a req of
                DoFailed \<Rightarrow> (Inl SendRequestFailed, [req])
              | ReadAllFailed \<Rightarrow> (Inl ReadResponseFailed, [req])
              | Response status body \<Rightarrow>
                  if status \<noteq> 200 then (Inl (APIError status body), [req])
                  else (case unmarshalMap lib body of
                          None \<Rightarrow> (Inl ParseResponseFailed, [req])
                        | Some response \<Rightarrow> (openAIText response, [req])))"

text \<open>
  The text of a Messages response (lines 205 to 211): both type assertions on
  \<^verbatim>\<open>content[0]\<close> and on its \<^verbatim>\<open>"text"\<close> have one result and panic on a value
  of another type (reading a key of a nil map gives \<^verbatim>\<open>nil\<close>).
\<close>

definition claudeText :: "(string \<times> go_value) list \<Rightarrow> error + string" where
  "claudeText response =
     (case map_of response ''content'' of
        Some (GoSlice content) \<Rightarrow>
          (case content of
             [] \<Rightarrow> Inl NoContent
           | content0 # rest \<Rightarrow>
               (case content0 of
                  GoMap block \<Rightarrow>
                    (case map_of block ''text'' of
                       Some (GoString text) \<Rightarrow> Inr (TrimSpace text)
                     | other \<Rightarrow> Inl RuntimePanic)
                | other \<Rightarrow> Inl RuntimePanic))
      | other \<Rightarrow> Inl NoContent)"

text \<open>
  \<^verbatim>\<open>Header.Set\<close> stores a header under its canonical name, so the client
  receives \<^verbatim>\<open>x-api-key\<close> and \<^verbatim>\<open>anthropic-version\<close> as
  \<^verbatim>\<open>X-Api-Key\<close> and \<^verbatim>\<open>Anthropic-Version\<close>.
\<close>

definition generateWithClaude ::
    "stdlib \<Rightarrow> AIService \<Rightarrow> string \<Rightarrow> (error + string) \<times> http_request list" where
  "generateWithClaude lib a diff =
     (let baseURL = (if BaseURL (config a) = [] then ''https://api.anthropic.com/v1''
                     else BaseURL (config a));
          requestBody = GoMap
            [(''model'', GoString (getModel a)),
             (''max_tokens'', GoInt 200),
             (''system'', GoString systemPrompt),
             (''messages'', GoSlice
                [GoMap [(''role'', GoString ''user''),
                        (''content'', GoString (userPromptPrefix @ diff))]])];
          jsonData = json_Marshal lib requestBody
      in if \<not> NewRequest_ok lib (baseURL @ ''/messages'')
         then (Inl CreateRequestFailed, [])
         else
           let req = \<lparr>reqMethod = ''POST'', reqURL = baseURL @ ''/messages'',
                      reqHeader = [(''Content-Type'', ''application/json''),
                                   (''X-Api-Key'', APIKey (config a)),
                                   (''Anthropic-Version'', ''2023-06-01'')],
                      reqBody = jsonData\<rparr>
           in case client a req of
                DoFailed \<Rightarrow> (Inl SendRequestFailed, [req])
              | ReadAllFailed \<Rightarrow> (Inl ReadResponseFailed, [req])
              | Response status body \<Rightarrow>
                  if status \<noteq> 200 then (Inl (APIError status body), [req])
                  else (case unmarshalMap lib body of
                          None \<Rightarrow> (Inl ParseResponseFailed, [req])
                        | Some response \<Rightarrow> (claudeText response, [req])))"

text \<open>The text of a local generation response (lines 275 to 280).\<close>

definition ollamaText :: "(string \<times> go_value) list \<Rightarrow> error + string" where
  "ollamaText response =
     (case map_of response ''response'' of
        Some (GoString respContent) \<Rightarrow> Inr (TrimSpace respContent)
      | other \<Rightarrow> Inl NoResponse)"

definition generateWithOllama ::
    "stdlib \<Rightarrow> AIService \<Rightarrow> string \<Rightarrow> (error + string) \<times> http_request list" where
  "generateWithOllama lib a diff =
     (let baseURL = (if BaseURL (config a) = [] then ''http://localhost:11434''
                     else BaseURL (config a));
          model0 = getModel a;
          model = (if model0 = [] then ''llama2'' else model0);
          requestBody = GoMap
            [(''model'', GoString model),
             (''prompt'', GoString (ollamaPromptPrefix @ diff @ ollamaPromptSuffix)),
             (''stream'', GoBool False)];
          jsonData = json_Marshal lib requestBody
      in if \<not> NewRequest_ok lib (baseURL @ ''/api/generate'')
         then (Inl CreateRequestFailed, [])
         else
           let req = \<lparr>reqMethod = ''POST'', reqURL = baseURL @ ''/api/generate'',
                      reqHeader = [(''Content-Type'', ''application/json'')],
                      reqBody = jsonData\<rparr>
           in case client a req of
                DoFailed \<Rightarrow> (Inl SendRequestFailed, [req])
              | ReadAllFailed \<Rightarrow> (Inl ReadResponseFailed, [req])
              | Response status body \<Rightarrow>
                  if status \<noteq> 200 then (Inl (APIError status body), [req])
                  else (case unmarshalMap lib body of
                          None \<Rightarrow> (Inl ParseResponseFailed, [req])
                        | Some response \<Rightarrow> (ollamaText response, [req])))"

text \<open>
  \<^verbatim>\<open>GenerateCommitMessage\<close>: the result, and the HTTP requests handed to the
  client during the call, in order.
\<close>

definition GenerateCommitMessage ::
    "stdlib \<Rightarrow> AIService \<Rightarrow> string \<Rightarrow> (error + string) \<times> http_request list" where
  "GenerateCommitMessage lib a diff =
     (if TrimSpace diff = [] then (Inl DiffEmpty, [])
      else if APIKey (config a) = [] \<and> Provider (config a) \<noteq> ProviderOllama
      then (Inl (APIKeyRequired (Provider (config a))), [])
      else if Provider (config a) = ProviderOpenAI then generateWithOpenAI lib a diff
      else if Provider (config a) = ProviderClaude then generateWithClaude lib a diff
      else if Provider (config a) = ProviderOllama then generateWithOllama lib a diff
      else (Inl (UnsupportedProvider (Provider (config a))), []))"

text \<open>
  The two validators are methods on a pointer to the service; they return the error
  (\<open>None\<close> for \<^verbatim>\<open>nil\<close>) and the service as the call leaves it.
\<close>

definition ValidateConfig :: "AIService \<Rightarrow> error option \<times> AIService" where
  "ValidateConfig a =
     (if (Provider (config a) = ProviderOpenAI \<or> Provider (config a) = ProviderClaude)
         \<and> APIKey (config a) = []
      then (Some (APIKeyRequired (Provider (config a))), a)
      else if Provider (config a) = [] then (Some ProviderMustBeSpecified, a)
      else (None, a))"

definition ValidateConfigParam :: "AIService \<Rightarrow> AIConfig \<Rightarrow> error option \<times> AIService" where
  "ValidateConfigParam a cfg =
     (if (Provider cfg = ProviderOpenAI \<or> Provider cfg = ProviderClaude) \<and> APIKey cfg = []
      then (Some (APIKeyRequired (Provider cfg)), a)
      else if Provider cfg = [] then (Some ProviderMustBeSpecified, a)
      else (None, a))"

subsection \<open>The response text as the specification words it\<close>





section \<open>Concrete inputs\<close>

text \<open>A selected repository, and git answering with fixed outputs.\<close>

definition repo :: GitService where
  "repo = \<lparr>currentPath = ''/repo''\<rparr>"

definition git_answers :: "string \<Rightarrow> git_exec" where
  "git_answers porcelain dir args =
     (if args = [''status'', ''--porcelain=v1''] then CmdOk porcelain
      else if args = [''status'', ''-sb''] then CmdOk (''## main'' @ [CHR 0x0A] @ porcelain)
      else CmdOk (''main'' @ [CHR 0x0A]))"

definition porcelain_mixed :: string where
  "porcelain_mixed =
     ''M  a.go'' @ [CHR 0x0A] @ '' D gone.txt'' @ [CHR 0x0A] @
     ''R  old.txt -> new.txt'' @ [CHR 0x0A] @ ''?? u.txt'' @ [CHR 0x0A]"

definition porcelain_deleted :: string where
  "porcelain_deleted = '' D a.txt'' @ [CHR 0x0A]"

definition porcelain_deleted_staged :: string where
  "porcelain_deleted_staged = ''D  b.txt'' @ [CHR 0x0A] @ '' D c.txt'' @ [CHR 0x0A]"

definition porcelain_MM :: string where
  "porcelain_MM = ''MM file.go'' @ [CHR 0x0A]"

text \<open>
  A library whose decoder knows five response bodies, and services whose client
  answers every request with status 200 and one of them.
\<close>

definition body_choices_number :: string where
  "body_choices_number = ''{\"choices\":[1]}''"

definition body_message_empty :: string where
  "body_message_empty = ''{\"choices\":[{\"message\":{}}]}''"

definition body_text_number :: string where
  "body_text_number = ''{\"content\":[{\"text\":1}]}''"

definition body_response_blank :: string where
  "body_response_blank = ''{\"response\":\"  \"}''"

definition body_response_text :: string where
  "body_response_text = ''{\"response\":\" feat: add parser \"}''"

definition lib_known :: stdlib where
  "lib_known =
     \<lparr>json_Marshal = (\<lambda>v. ''{}''),
      json_Unmarshal = (\<lambda>body.
        if body = body_choices_number
        then Some (GoMap [(''choices'', GoSlice [GoFloat64 0x3FF0000000000000])])
        else if body = body_message_empty
        then Some (GoMap [(''choices'', GoSlice [GoMap [(''message'', GoMap [])]])])
        else if body = body_text_number
        then Some (GoMap [(''content'',
                           GoSlice [GoMap [(''text'', GoFloat64 0x3FF0000000000000)]])])
        else if body = body_response_blank
        then Some (GoMap [(''response'', GoString ''  '')])
        else if body = body_response_text
        then Some (GoMap [(''response'', GoString '' feat: add parser '')])
        else None),
      NewRequest_ok = (\<lambda>url. True)\<rparr>"

definition cfg_of :: "AIProvider \<Rightarrow> string \<Rightarrow> AIConfig" where
  "cfg_of p key = \<lparr>Provider = p, APIKey = key, BaseURL = [], Model = []\<rparr>"

definition service :: "AIProvider \<Rightarrow> string \<Rightarrow> string \<Rightarrow> AIService" where
  "service p key body = \<lparr>config = cfg_of p key, client = (\<lambda>req. Response 200 body)\<rparr>"


section \<open>Status translator: properties\<close>

lemma statusLine_HasChanges: "HasChanges (statusLine line status) = HasChanges status"
  by (simp add: statusLine_def Let_def)

lemma fold_statusLine_HasChanges:
  "HasChanges (fold statusLine ls status) = HasChanges status"
  by (induction ls arbitrary: status) (simp_all add: statusLine_HasChanges)

text \<open>
  Claim C1, as the code has it. \<^verbatim>\<open>GetStatus\<close> sets \<^verbatim>\<open>HasChanges\<close> from the
  porcelain output alone: it is true exactly when the output (with one final newline
  removed) is not the empty string. So an empty output gives \<^verbatim>\<open>HasChanges = false\<close>
  and three empty lists, and a status with an entry in any of the three lists has
  \<^verbatim>\<open>HasChanges = true\<close>; the converse does not hold.
\<close>

theorem GetStatus_HasChanges:
  assumes "GetStatus g exec = Inr st"
  shows "\<exists>output. runGitCommand g exec [''status'', ''--porcelain=v1''] = Inr output \<and>
           (HasChanges st \<longleftrightarrow> output \<noteq> []) \<and>
           (output = [] \<longrightarrow> Staged st = [] \<and> Unstaged st = [] \<and> Untracked st = []) \<and>
           (Staged st \<noteq> [] \<or> Unstaged st \<noteq> [] \<or> Untracked st \<noteq> [] \<longrightarrow> HasChanges st)"
  using assms
  by (auto simp: GetStatus_def Let_def fold_statusLine_HasChanges split: if_splits sum.splits)

theorem GetStatus_HasChanges_witness:
  "GetStatus repo (git_answers porcelain_mixed) =
     Inr \<lparr>Branch = ''##'',
          Staged = [\<lparr>Path = ''a.go'', Status = ''Staged'', Additions = 0, Deletions = 0\<rparr>,
                    \<lparr>Path = ''new.txt'', Status = ''Renamed'', Additions = 0, Deletions = 0\<rparr>],
          Unstaged = [], Untracked = [''u.txt''], IsRepo = True, HasChanges = True\<rparr> \<and>
   (\<exists>output. runGitCommand repo (git_answers porcelain_mixed) [''status'', ''--porcelain=v1'']
        = Inr output \<and> output \<noteq> [])"
proof -
  have h: "GetStatus repo (git_answers porcelain_mixed) =
     Inr \<lparr>Branch = ''##'',
          Staged = [\<lparr>Path = ''a.go'', Status = ''Staged'', Additions = 0, Deletions = 0\<rparr>,
                    \<lparr>Path = ''new.txt'', Status = ''Renamed'', Additions = 0, Deletions = 0\<rparr>],
          Unstaged = [], Untracked = [''u.txt''], IsRepo = True, HasChanges = True\<rparr>"
    by code_simp
  from GetStatus_HasChanges [OF h] obtain out where
    o: "runGitCommand repo (git_answers porcelain_mixed) [''status'', ''--porcelain=v1'']
          = Inr out"
    and "HasChanges \<lparr>Branch = ''##'',
          Staged = [\<lparr>Path = ''a.go'', Status = ''Staged'', Additions = 0, Deletions = 0\<rparr>,
                    \<lparr>Path = ''new.txt'', Status = ''Renamed'', Additions = 0, Deletions = 0\<rparr>],
          Unstaged = [], Untracked = [''u.txt''], IsRepo = True, HasChanges = True\<rparr>
        \<longleftrightarrow> out \<noteq> []"
    by blast
  then have "out \<noteq> []" by simp
  with o h show ?thesis by blast
qed

text \<open>
  Claim C1 as stated fails: a porcelain output whose only line is a deletion that is not
  staged classifies into no list, and the status has \<^verbatim>\<open>HasChanges = true\<close> with three
  empty lists.
\<close>

theorem GetStatus_HasChanges_counterexample:
  "GetStatus repo (git_answers porcelain_deleted) =
     Inr \<lparr>Branch = ''##'', Staged = [], Unstaged = [], Untracked = [],
          IsRepo = True, HasChanges = True\<rparr>"
  by code_simp

text \<open>
  Claim C2, as the code has it. A porcelain line \<^verbatim>\<open>MM PATH\<close> is appended to the
  staged list with the description \<^verbatim>\<open>Modified (staged and unstaged)\<close> and, because
  its worktree character is \<^verbatim>\<open>M\<close> and its index character is not \<^verbatim>\<open>?\<close>, the
  same change is appended to the unstaged list as well; the untracked list is unchanged.
\<close>

theorem statusLine_MM:
  "statusLine (''MM '' @ path) status =
     (let change = \<lparr>Path = (if Contains path ''->''
                             then TrimSpace (last (Split path ''->'')) else path),
                     Status = ''Modified (staged and unstaged)'',
                     Additions = 0, Deletions = 0\<rparr>
      in status\<lparr>Staged := Staged status @ [change], Unstaged := Unstaged status @ [change]\<rparr>)"
  by (simp add: statusLine_def Let_def)

theorem statusLine_MM_witness:
  "statusLine (''MM '' @ ''file.go'')
       \<lparr>Branch = ''main'', Staged = [], Unstaged = [], Untracked = [],
          IsRepo = True, HasChanges = True\<rparr> =
     \<lparr>Branch = ''main'',
      Staged = [\<lparr>Path = ''file.go'', Status = ''Modified (staged and unstaged)'',
                 Additions = 0, Deletions = 0\<rparr>],
      Unstaged = [\<lparr>Path = ''file.go'', Status = ''Modified (staged and unstaged)'',
                   Additions = 0, Deletions = 0\<rparr>],
      Untracked = [], IsRepo = True, HasChanges = True\<rparr>"
  using statusLine_MM [of "''file.go''"
      "\<lparr>Branch = ''main'', Staged = [], Unstaged = [], Untracked = [],
         IsRepo = True, HasChanges = True\<rparr>"]
  by (simp add: Let_def)

text \<open>
  Claim C2 as stated fails: for the output \<^verbatim>\<open>MM file.go\<close> the unstaged list of the
  returned status holds the file too.
\<close>

theorem GetStatus_MM_counterexample:
  "GetStatus repo (git_answers porcelain_MM) =
     Inr \<lparr>Branch = ''##'',
          Staged = [\<lparr>Path = ''file.go'', Status = ''Modified (staged and unstaged)'',
                     Additions = 0, Deletions = 0\<rparr>],
          Unstaged = [\<lparr>Path = ''file.go'', Status = ''Modified (staged and unstaged)'',
                       Additions = 0, Deletions = 0\<rparr>],
          Untracked = [], IsRepo = True, HasChanges = True\<rparr>"
  by code_simp

lemma two_chars:
  assumes "take 2 line = [a, b]"
  shows "\<exists>rest. line = a # b # rest"
proof (cases line)
  case Nil
  with assms show ?thesis by simp
next
  case (Cons x xs)
  note l = this
  show ?thesis
  proof (cases xs)
    case Nil
    with l assms show ?thesis by simp
  next
    case (Cons y ys)
    with l assms show ?thesis by simp
  qed
qed

lemma statusLine_deleted:
  assumes "take 2 line = '' D'' \<or> take 2 line = ''D ''"
  shows "statusLine line status = status"
  using assms
proof
  assume "take 2 line = '' D''"
  then have "\<exists>rest. line = CHR '' '' # CHR ''D'' # rest" by (rule two_chars)
  then obtain rest where "line = CHR '' '' # CHR ''D'' # rest" ..
  then show ?thesis by (simp add: statusLine_def Let_def)
next
  assume "take 2 line = ''D ''"
  then have "\<exists>rest. line = CHR ''D'' # CHR '' '' # rest" by (rule two_chars)
  then obtain rest where "line = CHR ''D'' # CHR '' '' # rest" ..
  then show ?thesis by (simp add: statusLine_def Let_def)
qed

lemma fold_statusLine_deleted:
  "\<forall>line \<in> set ls. take 2 line = '' D'' \<or> take 2 line = ''D '' \<Longrightarrow>
     fold statusLine ls status = status"
proof (induction ls arbitrary: status)
  case Nil
  show ?case by simp
next
  case (Cons l ls)
  from Cons.prems have "take 2 l = '' D'' \<or> take 2 l = ''D ''" by simp
  then have "statusLine l status = status" by (rule statusLine_deleted)
  moreover from Cons.prems
  have "\<forall>line \<in> set ls. take 2 line = '' D'' \<or> take 2 line = ''D ''"
    by simp
  then have "fold statusLine ls status = status" by (rule Cons.IH)
  ultimately show ?case by simp
qed

lemma GetStatus_deleted_only:
  assumes g: "GetStatus g exec = Inr st"
    and out: "runGitCommand g exec [''status'', ''--porcelain=v1''] = Inr output"
    and del: "\<forall>l \<in> set (Split output [CHR 0x0A]). take 2 l = '' D'' \<or> take 2 l = ''D ''"
  shows "Staged st = [] \<and> Unstaged st = [] \<and> Untracked st = []"
  using g out fold_statusLine_deleted [OF del]
  by (auto simp: GetStatus_def Let_def split: if_splits sum.splits)

text \<open>
  Claim C10. A porcelain line whose status code is \<^verbatim>\<open>" D"\<close> or \<^verbatim>\<open>"D "\<close> leaves
  the status as it was: the file is appended to none of the three lists, although
  \<^verbatim>\<open>getStatusDescription\<close> names the codes \<^verbatim>\<open>Deleted\<close> and
  \<^verbatim>\<open>Deleted (staged)\<close>. So when every line of the porcelain output has one of these
  codes, the three lists of the returned status are empty.
\<close>

theorem deleted_lines_in_no_list:
  "(take 2 line = '' D'' \<or> take 2 line = ''D '' \<longrightarrow>
      Staged (statusLine line status) = Staged status \<and>
      Unstaged (statusLine line status) = Unstaged status \<and>
      Untracked (statusLine line status) = Untracked status) \<and>
   getStatusDescription '' D'' = ''Deleted'' \<and>
   getStatusDescription ''D '' = ''Deleted (staged)'' \<and>
   (GetStatus g exec = Inr st \<and>
    runGitCommand g exec [''status'', ''--porcelain=v1''] = Inr output \<and>
    (\<forall>l \<in> set (Split output [CHR 0x0A]). take 2 l = '' D'' \<or> take 2 l = ''D '') \<longrightarrow>
      Staged st = [] \<and> Unstaged st = [] \<and> Untracked st = [])"
proof (intro conjI impI)
  assume "take 2 line = '' D'' \<or> take 2 line = ''D ''"
  then have s: "statusLine line status = status" by (rule statusLine_deleted)
  show "Staged (statusLine line status) = Staged status" by (simp only: s)
  show "Unstaged (statusLine line status) = Unstaged status" by (simp only: s)
  show "Untracked (statusLine line status) = Untracked status" by (simp only: s)
next
  show "getStatusDescription '' D'' = ''Deleted''" by simp
  show "getStatusDescription ''D '' = ''Deleted (staged)''" by simp
next
  assume "GetStatus g exec = Inr st \<and>
    runGitCommand g exec [''status'', ''--porcelain=v1''] = Inr output \<and>
    (\<forall>l \<in> set (Split output [CHR 0x0A]). take 2 l = '' D'' \<or> take 2 l = ''D '')"
  then have "Staged st = [] \<and> Unstaged st = [] \<and> Untracked st = []"
    using GetStatus_deleted_only by blast
  then show "Staged st = []" "Unstaged st = []" "Untracked st = []" by simp_all
qed

theorem deleted_lines_in_no_list_witness:
  "take 2 ''D  b.txt'' = ''D '' \<and>
   Staged (statusLine ''D  b.txt'' \<lparr>Branch = ''main'', Staged = [], Unstaged = [],
      Untracked = [''u.txt''], IsRepo = True, HasChanges = True\<rparr>) =
     Staged \<lparr>Branch = ''main'', Staged = [], Unstaged = [],
      Untracked = [''u.txt''], IsRepo = True, HasChanges = True\<rparr> \<and>
   GetStatus repo (git_answers porcelain_deleted_staged) =
     Inr \<lparr>Branch = ''##'', Staged = [], Unstaged = [], Untracked = [],
          IsRepo = True, HasChanges = True\<rparr> \<and>
   runGitCommand repo (git_answers porcelain_deleted_staged) [''status'', ''--porcelain=v1'']
     = Inr (''D  b.txt'' @ [CHR 0x0A] @ '' D c.txt'') \<and>
   Split (''D  b.txt'' @ [CHR 0x0A] @ '' D c.txt'') [CHR 0x0A] = [''D  b.txt'', '' D c.txt''] \<and>
   take 2 '' D c.txt'' = '' D''"
proof -
  have a: "take 2 ''D  b.txt'' = ''D ''" and a': "take 2 '' D c.txt'' = '' D''"
    by simp_all
  have b: "GetStatus repo (git_answers porcelain_deleted_staged) =
     Inr \<lparr>Branch = ''##'', Staged = [], Unstaged = [], Untracked = [],
          IsRepo = True, HasChanges = True\<rparr>"
    by code_simp
  have c: "runGitCommand repo (git_answers porcelain_deleted_staged)
      [''status'', ''--porcelain=v1''] = Inr (''D  b.txt'' @ [CHR 0x0A] @ '' D c.txt'')"
    by code_simp
  have s: "Split (''D  b.txt'' @ [CHR 0x0A] @ '' D c.txt'') [CHR 0x0A]
      = [''D  b.txt'', '' D c.txt'']"
    by code_simp
  from a a' have d: "\<forall>l \<in> set [''D  b.txt'', '' D c.txt''].
        take 2 l = '' D'' \<or> take 2 l = ''D ''"
    by simp
  note t = deleted_lines_in_no_list [of "''D  b.txt''"
      "\<lparr>Branch = ''main'', Staged = [], Unstaged = [], Untracked = [''u.txt''],
         IsRepo = True, HasChanges = True\<rparr>" repo "git_answers porcelain_deleted_staged"
      "\<lparr>Branch = ''##'', Staged = [], Unstaged = [], Untracked = [],
          IsRepo = True, HasChanges = True\<rparr>" "''D  b.txt'' @ [CHR 0x0A] @ '' D c.txt''"]
  from t a a' b c s d show ?thesis by blast
qed

section \<open>AI provider gateway: properties\<close>

text \<open>
  Claim C3. A diff that is empty after \<^verbatim>\<open>strings.TrimSpace\<close> makes
  \<^verbatim>\<open>GenerateCommitMessage\<close> fail with the empty-diff error for every
  configuration, and no HTTP request is handed to the client.
\<close>

theorem GenerateCommitMessage_empty_diff:
  "TrimSpace diff = [] \<Longrightarrow> GenerateCommitMessage lib a diff = (Inl DiffEmpty, [])"
  by (simp add: GenerateCommitMessage_def)

theorem GenerateCommitMessage_empty_diff_witness:
  "TrimSpace ('' '' @ [CHR 0x0A, CHR 0x09]) = [] \<and>
   GenerateCommitMessage lib_known (service ProviderOpenAI ''sk-key'' body_response_text)
     ('' '' @ [CHR 0x0A, CHR 0x09]) = (Inl DiffEmpty, [])"
proof -
  have h: "TrimSpace ('' '' @ [CHR 0x0A, CHR 0x09]) = []" by code_simp
  from GenerateCommitMessage_empty_diff [OF h] h show ?thesis by blast
qed

text \<open>
  Claim C4 fails on the code. A ChatCompletion response with status 200 whose
  \<^verbatim>\<open>choices[0]\<close> is a number reaches the type assertion
  \<^verbatim>\<open>choices[0].(map[string]interface{})\<close>, which panics: the call returns no error
  value, after one request was sent. A Messages response whose \<^verbatim>\<open>content[0].text\<close>
  is a number panics in the same way, and a ChatCompletion response whose message has no
  \<^verbatim>\<open>content\<close> is returned as success with the empty string.
\<close>

theorem GenerateCommitMessage_panics:
  "fst (GenerateCommitMessage lib_known
          (service ProviderOpenAI ''sk-key'' body_choices_number) ''diff'') = Inl RuntimePanic \<and>
   length (snd (GenerateCommitMessage lib_known
          (service ProviderOpenAI ''sk-key'' body_choices_number) ''diff'')) = 1 \<and>
   fst (GenerateCommitMessage lib_known
          (service ProviderClaude ''sk-key'' body_text_number) ''diff'') = Inl RuntimePanic \<and>
   fst (GenerateCommitMessage lib_known
          (service ProviderOpenAI ''sk-key'' body_message_empty) ''diff'') = Inr []"
  by code_simp










text \<open>
  Claim C6 fails on the code. For the provider \<^verbatim>\<open>gemini\<close>, which is none of the
  three known values and not empty, both validators return no error, while
  \<^verbatim>\<open>GenerateCommitMessage\<close> with the same configuration fails with the
  unsupported-provider error.
\<close>

theorem validators_accept_unknown_provider:
  "fst (ValidateConfig (service ''gemini'' ''key'' body_response_text)) = None \<and>
   fst (ValidateConfigParam (service ProviderOpenAI ''sk-key'' body_response_text)
          (cfg_of ''gemini'' ''key'')) = None \<and>
   GenerateCommitMessage lib_known (service ''gemini'' ''key'' body_response_text) ''diff'' =
     (Inl (UnsupportedProvider ''gemini''), [])"
  by code_simp

text \<open>
  Claim C7. With an empty API key, validation of a configuration (the candidate given
  to \<^verbatim>\<open>ValidateConfigParam\<close>, or the held one after \<^verbatim>\<open>SetConfig\<close>) returns no
  error for the provider \<^verbatim>\<open>ollama\<close> and the missing-credential error for the
  providers \<^verbatim>\<open>openai\<close> and \<^verbatim>\<open>claude\<close>. The gateway makes the same check:
  for these two providers \<^verbatim>\<open>GenerateCommitMessage\<close> on a diff that is not blank
  fails with the missing-credential error before any request is sent.
\<close>

theorem validate_credentials:
  "(Provider cfg = ProviderOllama \<and> APIKey cfg = [] \<longrightarrow>
      fst (ValidateConfigParam a cfg) = None \<and>
      fst (ValidateConfig (SetConfig a cfg)) = None) \<and>
   ((Provider cfg = ProviderOpenAI \<or> Provider cfg = ProviderClaude) \<and> APIKey cfg = [] \<longrightarrow>
      fst (ValidateConfigParam a cfg) = Some (APIKeyRequired (Provider cfg)) \<and>
      fst (ValidateConfig (SetConfig a cfg)) = Some (APIKeyRequired (Provider cfg)) \<and>
      (TrimSpace diff \<noteq> [] \<longrightarrow>
         GenerateCommitMessage lib (SetConfig a cfg) diff =
           (Inl (APIKeyRequired (Provider cfg)), [])))"
  by (auto simp: ValidateConfigParam_def ValidateConfig_def SetConfig_def
        GenerateCommitMessage_def ProviderOpenAI_def ProviderClaude_def ProviderOllama_def)

theorem validate_credentials_witness:
  "(Provider (cfg_of ProviderOllama []) = ProviderOllama \<and>
    APIKey (cfg_of ProviderOllama []) = [] \<and>
    fst (ValidateConfigParam (service ProviderOpenAI ''sk-key'' body_response_text)
           (cfg_of ProviderOllama [])) = None) \<and>
   (Provider (cfg_of ProviderOpenAI []) = ProviderOpenAI \<and>
    APIKey (cfg_of ProviderOpenAI []) = [] \<and>
    fst (ValidateConfigParam (service ProviderOllama [] body_response_text)
           (cfg_of ProviderOpenAI [])) =
      Some (APIKeyRequired (Provider (cfg_of ProviderOpenAI []))) \<and>
    TrimSpace ''diff'' \<noteq> [] \<and>
    GenerateCommitMessage lib_known
        (SetConfig (service ProviderOllama [] body_response_text) (cfg_of ProviderOpenAI []))
        ''diff'' =
      (Inl (APIKeyRequired (Provider (cfg_of ProviderOpenAI []))), []))"
proof -
  have a: "Provider (cfg_of ProviderOllama []) = ProviderOllama"
    and b: "APIKey (cfg_of ProviderOllama []) = []"
    and c: "Provider (cfg_of ProviderOpenAI []) = ProviderOpenAI"
    and d: "APIKey (cfg_of ProviderOpenAI []) = []"
    by (simp_all add: cfg_of_def)
  have e: "TrimSpace ''diff'' \<noteq> []" by code_simp
  from validate_credentials [of "cfg_of ProviderOllama []"
      "service ProviderOpenAI ''sk-key'' body_response_text" "''diff''" lib_known]
    validate_credentials [of "cfg_of ProviderOpenAI []"
      "service ProviderOllama [] body_response_text" "''diff''" lib_known]
    a b c d e
  show ?thesis by blast
qed

text \<open>
  Claim C8. \<^verbatim>\<open>getModel\<close> returns a model that is not empty unchanged, and for an
  empty model the default of the provider: \<^verbatim>\<open>gpt-4\<close> for \<^verbatim>\<open>openai\<close>,
  \<^verbatim>\<open>claude-3-sonnet-20240229\<close> for \<^verbatim>\<open>claude\<close> and \<^verbatim>\<open>llama2\<close> for
  \<^verbatim>\<open>ollama\<close>.
\<close>

theorem getModel_default:
  "(Model (config a) \<noteq> [] \<longrightarrow> getModel a = Model (config a)) \<and>
   (Model (config a) = [] \<and> Provider (config a) = ProviderOpenAI \<longrightarrow>
      getModel a = ''gpt-4'') \<and>
   (Model (config a) = [] \<and> Provider (config a) = ProviderClaude \<longrightarrow>
      getModel a = ''claude-3-sonnet-20240229'') \<and>
   (Model (config a) = [] \<and> Provider (config a) = ProviderOllama \<longrightarrow>
      getModel a = ''llama2'')"
  by (simp add: getModel_def ProviderOpenAI_def ProviderClaude_def ProviderOllama_def)

theorem getModel_default_witness:
  "Model (config (service ProviderClaude ''key'' body_response_text)) = [] \<and>
   Provider (config (service ProviderClaude ''key'' body_response_text)) = ProviderClaude \<and>
   getModel (service ProviderClaude ''key'' body_response_text) = ''claude-3-sonnet-20240229'' \<and>
   Model (config (SetConfig (service ProviderClaude ''key'' body_response_text)
      \<lparr>Provider = ProviderOllama, APIKey = [], BaseURL = [], Model = ''mistral''\<rparr>)) \<noteq> [] \<and>
   getModel (SetConfig (service ProviderClaude ''key'' body_response_text)
      \<lparr>Provider = ProviderOllama, APIKey = [], BaseURL = [], Model = ''mistral''\<rparr>) = ''mistral''"
proof -
  have a: "Model (config (service ProviderClaude ''key'' body_response_text)) = []"
    and b: "Provider (config (service ProviderClaude ''key'' body_response_text)) = ProviderClaude"
    by (simp_all add: service_def cfg_of_def)
  have c: "Model (config (SetConfig (service ProviderClaude ''key'' body_response_text)
      \<lparr>Provider = ProviderOllama, APIKey = [], BaseURL = [], Model = ''mistral''\<rparr>)) = ''mistral''"
    by (simp add: SetConfig_def)
  then have d: "Model (config (SetConfig (service ProviderClaude ''key'' body_response_text)
      \<lparr>Provider = ProviderOllama, APIKey = [], BaseURL = [], Model = ''mistral''\<rparr>)) \<noteq> []"
    by simp
  from getModel_default [of "service ProviderClaude ''key'' body_response_text"]
    getModel_default [of "SetConfig (service ProviderClaude ''key'' body_response_text)
      \<lparr>Provider = ProviderOllama, APIKey = [], BaseURL = [], Model = ''mistral''\<rparr>"]
    a b c d
  show ?thesis by metis
qed

text \<open>
  Claim C9. \<^verbatim>\<open>ValidateConfigParam\<close> leaves the service as it was, whatever the
  candidate and whether it is accepted: the held configuration, with its provider, API
  key, base URL and model, is the same after the call.
\<close>

theorem ValidateConfigParam_frame:
  "snd (ValidateConfigParam a cfg) = a \<and>
   GetConfig (snd (ValidateConfigParam a cfg)) = GetConfig a \<and>
   Provider (config (snd (ValidateConfigParam a cfg))) = Provider (config a) \<and>
   APIKey (config (snd (ValidateConfigParam a cfg))) = APIKey (config a) \<and>
   BaseURL (config (snd (ValidateConfigParam a cfg))) = BaseURL (config a) \<and>
   Model (config (snd (ValidateConfigParam a cfg))) = Model (config a)"
  by (simp add: ValidateConfigParam_def)

theorem ValidateConfigParam_frame_witness:
  "fst (ValidateConfigParam (service ProviderOllama [] body_response_text)
          (cfg_of ProviderOpenAI [])) = Some (APIKeyRequired ProviderOpenAI) \<and>
   GetConfig (snd (ValidateConfigParam (service ProviderOllama [] body_response_text)
          (cfg_of ProviderOpenAI []))) = cfg_of ProviderOllama []"
proof -
  have a: "fst (ValidateConfigParam (service ProviderOllama [] body_response_text)
          (cfg_of ProviderOpenAI [])) = Some (APIKeyRequired ProviderOpenAI)"
    by code_simp
  have b: "GetConfig (service ProviderOllama [] body_response_text) = cfg_of ProviderOllama []"
    by (simp add: GetConfig_def service_def)
  from ValidateConfigParam_frame [of "service ProviderOllama [] body_response_text"
      "cfg_of ProviderOpenAI []"] a b
  show ?thesis by simp
qed

end
